theory Spec2Isabelle
  imports Main "HOL-Library.Sublist"
begin

section \<open>JavaScript strings\<close>


definition newline :: char where
  "newline = CHR 0x0A"

definition isWhiteSpace :: "char \<Rightarrow> bool" where
  "isWhiteSpace c = (of_char c \<in> {9, 10, 11, 12, 13, 32, 160 :: nat})"

definition trim :: "string \<Rightarrow> string" where
  \<comment> \<open>\<open>String.prototype.trim\<close>\<close>
  "trim s = rev (dropWhile isWhiteSpace (rev (dropWhile isWhiteSpace s)))"

definition startsWith :: "string \<Rightarrow> string \<Rightarrow> bool" where
  "startsWith s p = prefix p s"

definition endsWith :: "string \<Rightarrow> string \<Rightarrow> bool" where
  "endsWith s p = suffix p s"

definition toLowerChar :: "char \<Rightarrow> char" where
  "toLowerChar c =
     (let n = (of_char c :: nat)
      in if (65 \<le> n \<and> n \<le> 90) \<or> (192 \<le> n \<and> n \<le> 214) \<or> (216 \<le> n \<and> n \<le> 222)
         then char_of (n + 32) else c)"

definition toLowerCase :: "string \<Rightarrow> string" where
  \<comment> \<open>\<open>String.prototype.toLowerCase\<close>\<close>
  "toLowerCase s = map toLowerChar s"

fun findAfter :: "string \<Rightarrow> string \<Rightarrow> string option" where
  \<comment> \<open>the text that follows the leftmost occurrence of \<open>pat\<close> in the string, if there is one\<close>
  "findAfter pat [] = (if pat = [] then Some [] else None)"
| "findAfter pat (c # cs) =
     (if prefix pat (c # cs) then Some (drop (length pat) (c # cs)) else findAfter pat cs)"

definition includesStr :: "string \<Rightarrow> string \<Rightarrow> bool" where
  \<comment> \<open>\<open>String.prototype.includes\<close>\<close>
  "includesStr s pat = (findAfter pat s \<noteq> None)"

fun replaceFirst :: "string \<Rightarrow> string \<Rightarrow> string \<Rightarrow> string" where
  \<comment> \<open>\<open>s.replace(pat, rep)\<close> for a string pattern and a replacement without \<open>$\<close>\<close>
  "replaceFirst pat rep [] = (if pat = [] then rep else [])"
| "replaceFirst pat rep (c # cs) =
     (if prefix pat (c # cs) then rep @ drop (length pat) (c # cs)
      else c # replaceFirst pat rep cs)"

function removeFence :: "string \<Rightarrow> string \<Rightarrow> string" where
  \<comment> \<open>\<open>s.replace(/pat\n?/g, '')\<close> for a literal, non-empty \<open>pat\<close>: every match, scanning from
      the left, is deleted together with one line feed that directly follows it\<close>
  "removeFence pat s =
     (if pat = [] \<or> s = [] then s
      else if prefix pat s then
        (case drop (length pat) s of
           [] \<Rightarrow> []
         | c # r \<Rightarrow> if c = newline then removeFence pat r else removeFence pat (c # r))
      else hd s # removeFence pat (tl s))"
  by pat_completeness auto
termination
  by (relation "measure (\<lambda>(pat, s). length s)") (auto simp: prefix_def)

declare removeFence.simps [simp del]


fun joinWith :: "string \<Rightarrow> string list \<Rightarrow> string" where
  \<comment> \<open>\<open>Array.prototype.join\<close> on strings\<close>
  "joinWith sep [] = []"
| "joinWith sep [x] = x"
| "joinWith sep (x # y # ys) = x @ sep @ joinWith sep (y # ys)"

section \<open>Stripping markdown fences from a completion\<close>

definition cleanJsonResponse :: "string \<Rightarrow> string" where
  \<comment> \<open>\<open>TemplateAnalyzer.cleanJsonResponse\<close>\<close>
  "cleanJsonResponse text =
     (let cleaned = removeFence ''```'' (removeFence ''```json'' text);
          cleaned = trim cleaned;
          cleaned = (if startsWith cleaned ''`'' then drop 1 cleaned else cleaned);
          cleaned = (if endsWith cleaned ''`'' then take (length cleaned - 1) cleaned else cleaned)
      in trim cleaned)"

definition cleanGeneratedCode :: "string \<Rightarrow> string" where
  \<comment> \<open>\<open>CodeGenerator.cleanGeneratedCode\<close>\<close>
  "cleanGeneratedCode code =
     (let cleaned = removeFence ''```'' (removeFence ''```html'' code);
          cleaned = trim cleaned;
          cleaned = (if startsWith cleaned ''`'' then drop 1 cleaned else cleaned);
          cleaned = (if endsWith cleaned ''`'' then take (length cleaned - 1) cleaned else cleaned)
      in trim cleaned)"







section \<open>Comparing a branch name with a ticket id\<close>

definition sameIgnoringCase :: "string \<Rightarrow> string \<Rightarrow> bool" where
  \<comment> \<open>equal up to the case of each code unit\<close>
  "sameIgnoringCase a b = list_all2 (\<lambda>c d. toLowerChar c = toLowerChar d) a b"

definition startsWithIgnoringCase :: "string \<Rightarrow> string \<Rightarrow> bool" where
  \<comment> \<open>the specification's words: the branch name starts with the ticket id, in any casing\<close>
  "startsWithIgnoringCase branch ticketId =
     (length ticketId \<le> length branch \<and> sameIgnoringCase (take (length ticketId) branch) ticketId)"

section \<open>JavaScript values, errors, the console\<close>

datatype jserror = Error string | TypeError string | SyntaxError string

text \<open>
  Whatever this program and the libraries it calls throw is an error object that carries a
  message; the constructors are the error classes that occur.
\<close>

fun message :: "jserror \<Rightarrow> string" where
  "message (Error m) = m"
| "message (TypeError m) = m"
| "message (SyntaxError m) = m"

text \<open>
  What \<open>JSON.parse\<close> can return, and \<open>undefined\<close> for a property that is not there.
  A number matters to this program only through being zero or not and through its decimal
  text, so numbers are integers here.
\<close>

datatype jsval =
    JUndefined
  | JNull
  | JBool bool
  | JNum int
  | JStr string
  | JArr "jsval list"
  | JObj "(string \<times> jsval) list"

fun truthy :: "jsval \<Rightarrow> bool" where
  "truthy JUndefined = False"
| "truthy JNull = False"
| "truthy (JBool b) = b"
| "truthy (JNum n) = (n \<noteq> 0)"
| "truthy (JStr s) = (s \<noteq> [])"
| "truthy (JArr vs) = True"
| "truthy (JObj kvs) = True"

fun getProp :: "jsval \<Rightarrow> string \<Rightarrow> jserror + jsval" where
  \<comment> \<open>\<open>v.name\<close> for a name that no prototype defines\<close>
  "getProp JUndefined name = Inl (TypeError (''Cannot read properties of undefined (reading '' @ name @ '')''))"
| "getProp JNull name = Inl (TypeError (''Cannot read properties of null (reading '' @ name @ '')''))"
| "getProp (JObj kvs) name = Inr (case map_of kvs name of None \<Rightarrow> JUndefined | Some v \<Rightarrow> v)"
| "getProp v name = Inr JUndefined"

fun setField :: "string \<Rightarrow> jsval \<Rightarrow> (string \<times> jsval) list \<Rightarrow> (string \<times> jsval) list" where
  "setField name v [] = [(name, v)]"
| "setField name v ((k, w) # kvs) = (if k = name then (k, v) # kvs else (k, w) # setField name v kvs)"

fun setProp :: "jsval \<Rightarrow> string \<Rightarrow> jsval \<Rightarrow> jsval" where
  \<comment> \<open>\<open>o.name = v\<close>; an assignment to a property of a primitive is dropped\<close>
  "setProp (JObj kvs) name v = JObj (setField name v kvs)"
| "setProp obj name v = obj"

fun digitsOf :: "nat \<Rightarrow> string" where
  "digitsOf n = (if n < 10 then [char_of (48 + n)] else digitsOf (n div 10) @ [char_of (48 + n mod 10)])"

declare digitsOf.simps [simp del]

fun jsToString :: "jsval \<Rightarrow> string" where
  \<comment> \<open>the conversion a template literal applies\<close>
  "jsToString JUndefined = ''undefined''"
| "jsToString JNull = ''null''"
| "jsToString (JBool b) = (if b then ''true'' else ''false'')"
| "jsToString (JNum n) = (if n < 0 then ''-'' @ digitsOf (nat (- n)) else digitsOf (nat n))"
| "jsToString (JStr s) = s"
| "jsToString (JArr vs) =
     joinWith '','' (map (\<lambda>v. case v of JUndefined \<Rightarrow> [] | JNull \<Rightarrow> [] | _ \<Rightarrow> jsToString v) vs)"
| "jsToString (JObj kvs) = ''[object Object]''"

datatype logarg = Text string | Thrown jserror

datatype logentry = ConsoleLog "logarg list" | ConsoleError "logarg list"

section \<open>The process: working directory, file system, console, network\<close>

type_synonym path = "string list"

record state =
  cwd :: path
  dirs :: "path list"
  files :: "(path \<times> string) list"
  console :: "logentry list"
  network :: "string list"
  defaultBranch :: string
  cleanupCalls :: nat

text \<open>
  \<open>cwd\<close> is \<open>process.cwd()\<close> as a list of directory names below the root, \<open>dirs\<close> the
  directories that exist, \<open>files\<close> the files written, \<open>console\<close> what was printed
  (every \<open>console.error\<close>, and the \<open>console.log\<close> lines that report a warning or a
  diagnostic text; lines that only report progress are not recorded), \<open>network\<close> the
  calls that left the machine, \<open>defaultBranch\<close> the field of the \<open>GitLabManager\<close>
  instance, and \<open>cleanupCalls\<close> how many times \<open>cleanup\<close> was entered.
\<close>

type_synonym 'a io = "state \<Rightarrow> (jserror + 'a) \<times> state"

definition ret :: "'a \<Rightarrow> 'a io" where
  "ret x = (\<lambda>s. (Inr x, s))"

definition throw :: "jserror \<Rightarrow> 'a io" where
  "throw e = (\<lambda>s. (Inl e, s))"

definition andThen :: "'a io \<Rightarrow> ('a \<Rightarrow> 'b io) \<Rightarrow> 'b io" where
  \<comment> \<open>one statement after another: an exception skips what follows\<close>
  "andThen m f = (\<lambda>s. case m s of (Inl e, s') \<Rightarrow> (Inl e, s') | (Inr x, s') \<Rightarrow> f x s')"

definition tryCatch :: "'a io \<Rightarrow> (jserror \<Rightarrow> 'a io) \<Rightarrow> 'a io" where
  \<comment> \<open>\<open>try { m } catch (e) { h e }\<close>\<close>
  "tryCatch m h = (\<lambda>s. case m s of (Inl e, s') \<Rightarrow> h e s' | (Inr x, s') \<Rightarrow> (Inr x, s'))"

definition lift :: "jserror + 'a \<Rightarrow> 'a io" where
  \<comment> \<open>a call that touches nothing in the state\<close>
  "lift r = (\<lambda>s. (r, s))"

definition netCall :: "string \<Rightarrow> jserror + 'a \<Rightarrow> 'a io" where
  \<comment> \<open>a call that goes over the network, whatever its outcome\<close>
  "netCall name r = (\<lambda>s. (r, s\<lparr>network := network s @ [name]\<rparr>))"

definition consoleLog :: "logarg list \<Rightarrow> unit io" where
  "consoleLog args = (\<lambda>s. (Inr (), s\<lparr>console := console s @ [ConsoleLog args]\<rparr>))"

definition consoleError :: "logarg list \<Rightarrow> unit io" where
  "consoleError args = (\<lambda>s. (Inr (), s\<lparr>console := console s @ [ConsoleError args]\<rparr>))"

record project =
  project_id :: nat
  project_name :: string
  project_path :: string
  path_with_namespace :: string
  default_branch :: "string option"

datatype content_block = TextBlock string | OtherBlock

record issue =
  issue_key :: string
  issue_summary :: string
  issue_status :: string
  issue_description :: "string option"

text \<open>
  Everything outside the repository is a parameter: the environment variables, the shell,
  the failures of the file system, the hosting API, the two model backends, the issue
  tracker and \<open>JSON.parse\<close>.  A backend is asked with a prompt that is a function of the
  arguments listed here, so its answer is given as a function of those arguments.
\<close>

record env =
  processEnv :: "string \<Rightarrow> string option"
  execSync :: "string \<Rightarrow> jserror + string"
  rmSyncError :: "path \<Rightarrow> jserror option"
  mkdirSyncError :: "path \<Rightarrow> jserror option"
  writeFileSyncError :: "path \<Rightarrow> jserror option"
  projectsShow :: "string \<Rightarrow> jserror + project"
  projectsAll :: "string \<Rightarrow> jserror + project list"
  mergeRequestsCreate :: "nat \<Rightarrow> string \<Rightarrow> string \<Rightarrow> string \<Rightarrow> string \<Rightarrow> jserror + string"
  generateContent :: "string \<Rightarrow> string \<Rightarrow> jserror + string"
  JSON_parse :: "string \<Rightarrow> jserror + jsval"
  messagesCreate :: "string \<Rightarrow> string \<Rightarrow> string \<Rightarrow> jserror + content_block list"
  findIssue :: "string \<Rightarrow> jserror + issue"

definition resolve :: "path \<Rightarrow> string \<Rightarrow> path" where
  \<comment> \<open>a relative name of one segment, or \<open>..\<close>, against a directory\<close>
  "resolve base rel = (if rel = ''..'' then butlast base else base @ [rel])"

definition existsSync :: "string \<Rightarrow> state \<Rightarrow> bool" where
  "existsSync rel s = (resolve (cwd s) rel \<in> set (dirs s))"

definition rmSync :: "env \<Rightarrow> string \<Rightarrow> unit io" where
  \<comment> \<open>\<open>fs.rmSync(rel, { recursive: true, force: true })\<close>\<close>
  "rmSync E rel = (\<lambda>s.
     let p = resolve (cwd s) rel
     in case rmSyncError E p of
          Some e \<Rightarrow> (Inl e, s)
        | None \<Rightarrow> (Inr (), s\<lparr>dirs := filter (\<lambda>d. \<not> prefix p d) (dirs s),
                               files := filter (\<lambda>(f, c). \<not> prefix p f) (files s)\<rparr>))"

definition mkdirSync :: "env \<Rightarrow> path \<Rightarrow> unit io" where
  "mkdirSync E p = (\<lambda>s.
     case mkdirSyncError E p of
       Some e \<Rightarrow> (Inl e, s)
     | None \<Rightarrow> (Inr (), s\<lparr>dirs := dirs s @ [p]\<rparr>))"

definition writeFileSync :: "env \<Rightarrow> path \<Rightarrow> string \<Rightarrow> unit io" where
  "writeFileSync E p content = (\<lambda>s.
     case writeFileSyncError E p of
       Some e \<Rightarrow> (Inl e, s)
     | None \<Rightarrow> (Inr (), s\<lparr>files := (p, content) # filter (\<lambda>(f, c). f \<noteq> p) (files s)\<rparr>))"

definition chdir :: "string \<Rightarrow> unit io" where
  \<comment> \<open>\<open>process.chdir\<close>: the parent of a directory is always there, another target may be
      missing\<close>
  "chdir rel = (\<lambda>s.
     if rel = ''..'' \<or> existsSync rel s then (Inr (), s\<lparr>cwd := resolve (cwd s) rel\<rparr>)
     else (Inl (Error (''ENOENT: no such file or directory, chdir '' @ rel)), s))"

section \<open>TemplateAnalyzer\<close>

definition requiredFields :: "string list" where
  "requiredFields =
     [''templateName'', ''variables'', ''description'', ''mergeRequestTitle'',
      ''mergeRequestDescription'', ''branchName'', ''commitMessage'']"

fun someFieldFalsy :: "jsval \<Rightarrow> string list \<Rightarrow> jserror + bool" where
  \<comment> \<open>\<open>!analysis.f1 || !analysis.f2 || ...\<close>, read from the left\<close>
  "someFieldFalsy analysis [] = Inr False"
| "someFieldFalsy analysis (f # fs) =
     (case getProp analysis f of
        Inl e \<Rightarrow> Inl e
      | Inr v \<Rightarrow> if \<not> truthy v then Inr True else someFieldFalsy analysis fs)"

definition parseAnalysis :: "env \<Rightarrow> string \<Rightarrow> string \<Rightarrow> jserror + jsval" where
  \<comment> \<open>the body of the inner \<open>try\<close> of \<open>analyzeTicketDescription\<close>\<close>
  "parseAnalysis E cleanedText ticketKey =
     (case JSON_parse E cleanedText of
        Inl e \<Rightarrow> Inl e
      | Inr analysis \<Rightarrow>
          (case someFieldFalsy analysis requiredFields of
             Inl e \<Rightarrow> Inl e
           | Inr True \<Rightarrow> Inl (Error ''Invalid template analysis response: missing required fields'')
           | Inr False \<Rightarrow>
               (case getProp analysis ''branchName'' of
                  Inl e \<Rightarrow> Inl e
                | Inr (JStr branch) \<Rightarrow>
                    if \<not> startsWith (toLowerCase branch) (toLowerCase ticketKey)
                    then Inr (setProp analysis ''branchName''
                                (JStr (toLowerCase ticketKey @ ''-'' @ toLowerCase branch)))
                    else Inr analysis
                | Inr other \<Rightarrow> Inl (TypeError ''analysis.branchName.toLowerCase is not a function''))))"

definition analyzeTicketDescription :: "env \<Rightarrow> string \<Rightarrow> string \<Rightarrow> jsval io" where
  "analyzeTicketDescription E descr ticketKey =
     tryCatch
       (andThen (netCall ''generateContent'' (generateContent E ticketKey descr)) (\<lambda>text.
        andThen (consoleLog [Text ''Cleaned response:'', Text (cleanJsonResponse text)]) (\<lambda>_.
        tryCatch
          (lift (parseAnalysis E (cleanJsonResponse text) ticketKey))
          (\<lambda>parseError.
             andThen (consoleError [Text ''JSON Parse Error:'', Thrown parseError]) (\<lambda>_.
             andThen (consoleError [Text ''Raw response:'', Text text]) (\<lambda>_.
             throw (Error ''Failed to parse template analysis response as JSON'')))))))
       (\<lambda>error.
          andThen (consoleError [Text ''Error analyzing template:'', Thrown error]) (\<lambda>_.
          throw error))"

definition fieldAbsent :: "jsval \<Rightarrow> string \<Rightarrow> bool" where
  \<comment> \<open>the specification's words: the field is missing or falsy in the candidate\<close>
  "fieldAbsent candidate f = (case getProp candidate f of Inl e \<Rightarrow> True | Inr v \<Rightarrow> \<not> truthy v)"

section \<open>CodeGenerator\<close>

definition generateEmailTemplate :: "env \<Rightarrow> jsval \<Rightarrow> jsval \<Rightarrow> jsval \<Rightarrow> string io" where
  "generateEmailTemplate E templateName descr variables =
     tryCatch
       (andThen
          (case variables of
             JArr vs \<Rightarrow> ret (joinWith [newline] (map (\<lambda>v. ''- '' @ jsToString v) vs))
           | _ \<Rightarrow> throw (TypeError ''variables.map is not a function'')) (\<lambda>variablesList.
        andThen
          (netCall ''messages.create''
             (messagesCreate E (jsToString templateName) (jsToString descr) variablesList)) (\<lambda>content.
        case content of
          [] \<Rightarrow> throw (TypeError ''Cannot read properties of undefined (reading type)'')
        | TextBlock generatedCode # _ \<Rightarrow> ret (cleanGeneratedCode generatedCode)
        | OtherBlock # _ \<Rightarrow> throw (Error ''Unexpected response format from Anthropic API''))))
       (\<lambda>error.
          andThen (consoleError [Text ''Error generating email template:'', Thrown error]) (\<lambda>_.
          throw error))"

section \<open>GitLabManager\<close>

record GitLabConfig =
  token :: string
  baseUrl :: string
  repoName :: string

record MergeRequestInfo =
  title :: string
  description :: string
  branchName :: string
  commitMessage :: string

definition tempDir :: string where
  "tempDir = ''temp_git''"

definition envFalsy :: "string option \<Rightarrow> bool" where
  \<comment> \<open>\<open>!process.env.X\<close>: the variable is not set, or set to the empty string\<close>
  "envFalsy v = (case v of None \<Rightarrow> True | Some x \<Rightarrow> x = [])"

definition envOr :: "string option \<Rightarrow> string \<Rightarrow> string" where
  \<comment> \<open>\<open>process.env.X || d\<close>\<close>
  "envOr v d = (case v of None \<Rightarrow> d | Some x \<Rightarrow> if x = [] then d else x)"

definition envValue :: "string option \<Rightarrow> string" where
  \<comment> \<open>\<open>process.env.X\<close> where a string is expected\<close>
  "envValue v = (case v of None \<Rightarrow> [] | Some x \<Rightarrow> x)"

definition GitLabManager_constructor :: "env \<Rightarrow> GitLabConfig io" where
  \<comment> \<open>the constructor of \<open>unnamed/part_001\<close>, which validates its environment; the
      instance it builds is its configuration and the field \<open>defaultBranch\<close>, initialised
      to \<open>main\<close>\<close>
  "GitLabManager_constructor E =
     (if envFalsy (processEnv E ''GITLAB_TOKEN'')
      then throw (Error ''GITLAB_TOKEN environment variable is required'')
      else if envFalsy (processEnv E ''REPO_NAME'')
      then throw (Error ''REPO_NAME environment variable is required'')
      else (\<lambda>s. (Inr \<lparr>token = envValue (processEnv E ''GITLAB_TOKEN''),
                       baseUrl = envOr (processEnv E ''GITLAB_BASE_URL'') ''https://gitlab.com'',
                       repoName = envValue (processEnv E ''REPO_NAME'')\<rparr>,
                  s\<lparr>defaultBranch := ''main''\<rparr>)))"

definition GitLabManager_ts_constructor :: "env \<Rightarrow> GitLabConfig io" where
  \<comment> \<open>the constructor of \<open>cmd_definitions/jira_test/GitLabManager.ts\<close>\<close>
  "GitLabManager_ts_constructor E =
     ret \<lparr>token = envOr (processEnv E ''GITLAB_TOKEN'') [],
          baseUrl = envOr (processEnv E ''GITLAB_BASE_URL'') ''https://gitlab.com'',
          repoName = envOr (processEnv E ''REPO_NAME'') []\<rparr>"

definition removeIfExists :: "env \<Rightarrow> string \<Rightarrow> unit io" where
  \<comment> \<open>\<open>if (fs.existsSync(d)) fs.rmSync(d, ...)\<close>\<close>
  "removeIfExists E rel = (\<lambda>s. if existsSync rel s then rmSync E rel s else (Inr (), s))"

definition gitClone :: "env \<Rightarrow> GitLabConfig \<Rightarrow> unit io" where
  \<comment> \<open>\<open>execSync(`git clone ${repoUrl} ${this.tempDir}`)\<close>: a clone that succeeds leaves the
      scratch directory below the working directory\<close>
  "gitClone E cfg = (\<lambda>s.
     let repoUrl = ''https://oauth2:'' @ token cfg @ ''@'' @ replaceFirst ''https://'' [] (baseUrl cfg)
                     @ ''/'' @ repoName cfg @ ''.git'';
         s' = s\<lparr>network := network s @ [''git clone'']\<rparr>
     in case execSync E (''git clone '' @ repoUrl @ '' '' @ tempDir) of
          Inl e \<Rightarrow> (Inl e, s')
        | Inr out \<Rightarrow> (Inr (), s'\<lparr>dirs := dirs s' @ [resolve (cwd s') tempDir]\<rparr>))"

definition cloneRepository :: "env \<Rightarrow> GitLabConfig \<Rightarrow> unit io" where
  "cloneRepository E cfg =
     tryCatch
       (andThen (removeIfExists E tempDir) (\<lambda>_. gitClone E cfg))
       (\<lambda>error.
          andThen (consoleError [Text ''Error cloning repository:'', Thrown error]) (\<lambda>_.
          throw (Error (''Failed to clone repository: '' @ message error
                         @ ''. Please check your GITLAB_TOKEN and REPO_NAME.''))))"

definition isLineTerminator :: "char \<Rightarrow> bool" where
  "isLineTerminator c = (of_char c \<in> {10, 13 :: nat})"

definition headBranch :: "string \<Rightarrow> string option" where
  \<comment> \<open>\<open>result.match(/HEAD branch: (.*)/)\<close> with a group that is not empty: the rest of the
      line after the leftmost \<open>HEAD branch: \<close>\<close>
  "headBranch result =
     (case findAfter ''HEAD branch: '' result of
        None \<Rightarrow> None
      | Some rest \<Rightarrow>
          (let captured = takeWhile (\<lambda>c. \<not> isLineTerminator c) rest
           in if captured = [] then None else Some captured))"

definition fallbackWarning :: string where
  \<open>fallbackWarning = ''Warning: Could not determine default branch, using "main" as fallback''\<close>

definition setDefaultBranch :: "string \<Rightarrow> unit io" where
  "setDefaultBranch b = (\<lambda>s. (Inr (), s\<lparr>defaultBranch := b\<rparr>))"

definition detectDefaultBranch :: "env \<Rightarrow> unit io" where
  "detectDefaultBranch E =
     tryCatch
       (andThen (netCall ''git remote show origin'' (execSync E ''git remote show origin'')) (\<lambda>result.
        case headBranch result of
          Some captured \<Rightarrow>
            andThen (setDefaultBranch (trim captured)) (\<lambda>_.
            consoleLog [Text (''Default branch detected: '' @ trim captured)])
        | None \<Rightarrow>
            andThen (lift (execSync E ''git branch -a'')) (\<lambda>branches.
            if includesStr branches ''remotes/origin/main'' then
              andThen (setDefaultBranch ''main'') (\<lambda>_.
              consoleLog [Text ''Default branch set to: main''])
            else if includesStr branches ''remotes/origin/master'' then
              andThen (setDefaultBranch ''master'') (\<lambda>_.
              consoleLog [Text ''Default branch set to: master''])
            else
              consoleLog [Text fallbackWarning])))
       (\<lambda>error.
          andThen (consoleError [Text ''Error detecting default branch:'', Thrown error]) (\<lambda>_.
          consoleLog [Text ''Using default branch: main'']))"

fun linesOf :: "string \<Rightarrow> string list" where
  "linesOf [] = [ [] ]"
| "linesOf (c # s) =
     (if c = newline then [] # linesOf s
      else (case linesOf s of [] \<Rightarrow> [ [c] ] | l # ls \<Rightarrow> (c # l) # ls))"

definition remoteBranchExists :: "string \<Rightarrow> string \<Rightarrow> bool" where
  \<comment> \<open>the specification's words, a remote branch of this name exists: one line of the
      output of \<open>git branch -a\<close> is \<open>remotes/origin/\<close> followed by the name\<close>
  "remoteBranchExists listing name = (''remotes/origin/'' @ name \<in> set (map trim (linesOf listing)))"

definition createBranch :: "env \<Rightarrow> string \<Rightarrow> unit io" where
  "createBranch E branch =
     andThen (chdir tempDir) (\<lambda>_.
     andThen (lift (execSync E (''git checkout -b '' @ branch))) (\<lambda>_. ret ()))"

definition saveTemplate :: "env \<Rightarrow> string \<Rightarrow> string \<Rightarrow> unit io" where
  "saveTemplate E templateName htmlCode = (\<lambda>s.
     let templatesDir = cwd s @ [''templates'']
     in andThen (if templatesDir \<notin> set (dirs s) then mkdirSync E templatesDir else ret ()) (\<lambda>_.
        writeFileSync E (templatesDir @ [templateName @ ''.html'']) htmlCode) s)"

definition commitAndPush :: "env \<Rightarrow> string \<Rightarrow> string \<Rightarrow> unit io" where
  \<open>commitAndPush E branch msg =
     andThen (lift (execSync E ''git add .'')) (\<lambda>_.
     andThen (lift (execSync E (''git commit -m "'' @ msg @ ''"''))) (\<lambda>_.
     andThen (netCall ''git push'' (execSync E (''git push origin '' @ branch))) (\<lambda>_. ret ())))\<close>

definition lastSegment :: "string \<Rightarrow> string" where
  \<comment> \<open>\<open>s.split('/').pop()\<close>\<close>
  "lastSegment s = rev (takeWhile (\<lambda>c. c \<noteq> CHR ''/'') (rev s))"

definition adoptDefaultBranch :: "project \<Rightarrow> unit io" where
  \<comment> \<open>\<open>if (project.default_branch) this.defaultBranch = project.default_branch\<close>\<close>
  "adoptDefaultBranch p =
     (case default_branch p of
        None \<Rightarrow> ret ()
      | Some b \<Rightarrow> if b = [] then ret () else setDefaultBranch b)"

definition lookupProject :: "env \<Rightarrow> GitLabConfig \<Rightarrow> project option io" where
  \<comment> \<open>the two attempts of \<open>createMergeRequest\<close> to find the project\<close>
  "lookupProject E cfg =
     tryCatch
       (andThen (netCall ''Projects.show'' (projectsShow E (repoName cfg))) (\<lambda>p.
        andThen (adoptDefaultBranch p) (\<lambda>_. ret (Some p))))
       (\<lambda>directError.
          andThen
            (netCall ''Projects.all''
               (projectsAll E (if lastSegment (repoName cfg) = [] then repoName cfg
                               else lastSegment (repoName cfg)))) (\<lambda>projects.
          let exact = find (\<lambda>p. path_with_namespace p = repoName cfg) projects;
              found = (case exact of
                         Some p \<Rightarrow> Some p
                       | None \<Rightarrow>
                           find (\<lambda>p. path_with_namespace p = repoName cfg
                                      \<or> project_path p = lastSegment (repoName cfg)
                                      \<or> project_name p = lastSegment (repoName cfg)) projects)
          in case found of
               Some p \<Rightarrow> andThen (adoptDefaultBranch p) (\<lambda>_. ret (Some p))
             | None \<Rightarrow> ret None))"

definition createMergeRequest :: "env \<Rightarrow> GitLabConfig \<Rightarrow> MergeRequestInfo \<Rightarrow> unit io" where
  "createMergeRequest E cfg mrInfo =
     tryCatch
       (andThen (lookupProject E cfg) (\<lambda>found.
        case found of
          None \<Rightarrow>
            throw (Error (''Project '' @ repoName cfg
              @ '' not found. Please check your GITLAB_TOKEN and REPO_NAME environment variables.''))
        | Some p \<Rightarrow>
            andThen
              (\<lambda>s. netCall ''MergeRequests.create''
                      (mergeRequestsCreate E (project_id p) (branchName mrInfo) (defaultBranch s)
                         (title mrInfo) (description mrInfo)) s) (\<lambda>_. ret ())))
       (\<lambda>error.
          andThen (consoleError [Text ''Error creating merge request:'', Thrown error]) (\<lambda>_.
          throw error))"

definition cleanup :: "env \<Rightarrow> unit io" where
  "cleanup E =
     andThen (\<lambda>s. (Inr (), s\<lparr>cleanupCalls := Suc (cleanupCalls s)\<rparr>)) (\<lambda>_.
     tryCatch
       (andThen (chdir ''..'') (\<lambda>_. removeIfExists E tempDir))
       (\<lambda>error.
          andThen (consoleError [Text ''Error during cleanup:'', Thrown error]) (\<lambda>_.
          throw error)))"

definition publishStages ::
    "env \<Rightarrow> GitLabConfig \<Rightarrow> string \<Rightarrow> string \<Rightarrow> MergeRequestInfo \<Rightarrow> unit io" where
  \<comment> \<open>the six stages that come before the clean-up in \<open>createTemplateAndMergeRequest\<close>\<close>
  "publishStages E cfg templateName htmlCode mrInfo =
     andThen (cloneRepository E cfg) (\<lambda>_.
     andThen (detectDefaultBranch E) (\<lambda>_.
     andThen (createBranch E (branchName mrInfo)) (\<lambda>_.
     andThen (saveTemplate E templateName htmlCode) (\<lambda>_.
     andThen (commitAndPush E (branchName mrInfo) (commitMessage mrInfo)) (\<lambda>_.
     createMergeRequest E cfg mrInfo)))))"

definition reportAndCleanup :: "env \<Rightarrow> jserror \<Rightarrow> unit io" where
  \<comment> \<open>the \<open>catch\<close> block of \<open>createTemplateAndMergeRequest\<close>\<close>
  "reportAndCleanup E error =
     andThen (consoleError [Text ''Error in GitLab operations:'', Thrown error]) (\<lambda>_.
     andThen (cleanup E) (\<lambda>_.
     throw error))"

definition createTemplateAndMergeRequest ::
    "env \<Rightarrow> GitLabConfig \<Rightarrow> string \<Rightarrow> string \<Rightarrow> MergeRequestInfo \<Rightarrow> unit io" where
  "createTemplateAndMergeRequest E cfg templateName htmlCode mrInfo =
     tryCatch
       (andThen (cloneRepository E cfg) (\<lambda>_.
        andThen (detectDefaultBranch E) (\<lambda>_.
        andThen (createBranch E (branchName mrInfo)) (\<lambda>_.
        andThen (saveTemplate E templateName htmlCode) (\<lambda>_.
        andThen (commitAndPush E (branchName mrInfo) (commitMessage mrInfo)) (\<lambda>_.
        andThen (createMergeRequest E cfg mrInfo) (\<lambda>_.
        cleanup E)))))))
       (reportAndCleanup E)"

section \<open>The publisher that the command handler imports\<close>

text \<open>
  \<open>ComandHandler.ts\<close> imports \<open>./GitLabManager\<close>, the class of
  \<open>cmd_definitions/jira_test/GitLabManager.ts\<close>.  Its \<open>createBranch\<close>, \<open>saveTemplate\<close> and
  \<open>commitAndPush\<close> are those of the class above; it does not detect the default branch, its
  \<open>cloneRepository\<close> and \<open>cleanup\<close> have no \<open>try\<close> of their own, and its
  \<open>createMergeRequest\<close> only prints instructions.
\<close>

definition cloneRepository_ts :: "env \<Rightarrow> GitLabConfig \<Rightarrow> unit io" where
  "cloneRepository_ts E cfg = andThen (removeIfExists E tempDir) (\<lambda>_. gitClone E cfg)"

definition createMergeRequest_ts :: "GitLabConfig \<Rightarrow> MergeRequestInfo \<Rightarrow> unit io" where
  \<comment> \<open>six calls of \<open>console.log\<close> and nothing else\<close>
  "createMergeRequest_ts cfg mrInfo = ret ()"

definition cleanup_ts :: "env \<Rightarrow> unit io" where
  "cleanup_ts E =
     andThen (\<lambda>s. (Inr (), s\<lparr>cleanupCalls := Suc (cleanupCalls s)\<rparr>)) (\<lambda>_.
     andThen (chdir ''..'') (\<lambda>_. removeIfExists E tempDir))"

definition createTemplateAndMergeRequest_ts ::
    "env \<Rightarrow> GitLabConfig \<Rightarrow> string \<Rightarrow> string \<Rightarrow> MergeRequestInfo \<Rightarrow> unit io" where
  "createTemplateAndMergeRequest_ts E cfg templateName htmlCode mrInfo =
     tryCatch
       (andThen (cloneRepository_ts E cfg) (\<lambda>_.
        andThen (createBranch E (branchName mrInfo)) (\<lambda>_.
        andThen (saveTemplate E templateName htmlCode) (\<lambda>_.
        andThen (commitAndPush E (branchName mrInfo) (commitMessage mrInfo)) (\<lambda>_.
        andThen (createMergeRequest_ts cfg mrInfo) (\<lambda>_.
        cleanup_ts E))))))
       (\<lambda>error.
          andThen (consoleError [Text ''Error in GitLab operations:'', Thrown error]) (\<lambda>_.
          andThen (cleanup_ts E) (\<lambda>_.
          throw error)))"

section \<open>The command handler\<close>

record options =
  task :: "string option"
  createMr :: bool

definition forEachVariable :: "jsval \<Rightarrow> jserror + unit" where
  \<comment> \<open>\<open>templateAnalysis.variables.forEach(...)\<close>, which only prints\<close>
  "forEachVariable variables =
     (case variables of
        JArr vs \<Rightarrow> Inr ()
      | JUndefined \<Rightarrow> Inl (TypeError ''Cannot read properties of undefined (reading forEach)'')
      | JNull \<Rightarrow> Inl (TypeError ''Cannot read properties of null (reading forEach)'')
      | _ \<Rightarrow> Inl (TypeError ''templateAnalysis.variables.forEach is not a function''))"

definition handleCommand_try :: "env \<Rightarrow> GitLabConfig \<Rightarrow> options \<Rightarrow> unit io" where
  \<comment> \<open>the \<open>try\<close> block of \<open>handleCommand\<close>; \<open>cfg\<close> is the configuration of the
      \<open>gitLabManager\<close> that the module constructs when it is loaded\<close>
  "handleCommand_try E cfg opts =
       (case task opts of
          None \<Rightarrow> consoleError [Text ''Please provide a task ID using -t or --task option'']
        | Some taskId \<Rightarrow>
            if taskId = [] then
              consoleError [Text ''Please provide a task ID using -t or --task option'']
            else
              andThen (netCall ''findIssue'' (findIssue E taskId)) (\<lambda>iss.
              case issue_description iss of
                None \<Rightarrow> ret ()
              | Some descr \<Rightarrow>
                  if descr = [] then ret ()
                  else
                    andThen (analyzeTicketDescription E descr (issue_key iss)) (\<lambda>templateAnalysis.
                    andThen (lift (getProp templateAnalysis ''templateName'')) (\<lambda>templateName.
                    andThen (lift (getProp templateAnalysis ''variables'')) (\<lambda>variables.
                    andThen (lift (forEachVariable variables)) (\<lambda>_.
                    andThen (lift (getProp templateAnalysis ''description'')) (\<lambda>descr'.
                    andThen (lift (getProp templateAnalysis ''branchName'')) (\<lambda>branch.
                    andThen (lift (getProp templateAnalysis ''commitMessage'')) (\<lambda>msg.
                    andThen (lift (getProp templateAnalysis ''mergeRequestTitle'')) (\<lambda>mrTitle.
                    andThen (lift (getProp templateAnalysis ''mergeRequestDescription'')) (\<lambda>mrDescr.
                    andThen (generateEmailTemplate E templateName descr' variables) (\<lambda>htmlCode.
                    andThen (saveTemplate E (jsToString templateName) htmlCode) (\<lambda>_.
                    if createMr opts then
                      createTemplateAndMergeRequest_ts E cfg (jsToString templateName) htmlCode
                        \<lparr>title = jsToString mrTitle, description = jsToString mrDescr,
                         branchName = jsToString branch, commitMessage = jsToString msg\<rparr>
                    else ret ())))))))))))))"

definition handleCommand :: "env \<Rightarrow> GitLabConfig \<Rightarrow> options \<Rightarrow> unit io" where
  "handleCommand E cfg opts =
     tryCatch
       (handleCommand_try E cfg opts)
       (\<lambda>error. consoleError [Text ''Error:'', Text (message error)])"

section \<open>A sample run\<close>

text \<open>
  One concrete environment, in which every external call succeeds, and the state of a
  process started in \<open>/home/dev/ai_tooling\<close>.  The examples below change one answer of
  this environment at a time.
\<close>

definition sampleJson :: string where
  \<open>sampleJson = ''{"templateName":"welcome_email","variables":["user_name","signup_date"],"description":"Welcome","mergeRequestTitle":"Add welcome email","mergeRequestDescription":"Adds the template","branchName":"Add-Welcome-Email","commitMessage":"Add welcome email template"}''\<close>

definition sampleAnalysis :: jsval where
  "sampleAnalysis =
     JObj [(''templateName'', JStr ''welcome_email''),
           (''variables'', JArr [JStr ''user_name'', JStr ''signup_date'']),
           (''description'', JStr ''Welcome''),
           (''mergeRequestTitle'', JStr ''Add welcome email''),
           (''mergeRequestDescription'', JStr ''Adds the template''),
           (''branchName'', JStr ''Add-Welcome-Email''),
           (''commitMessage'', JStr ''Add welcome email template'')]"

definition sampleParse :: "string \<Rightarrow> jserror + jsval" where
  \<comment> \<open>\<open>JSON.parse\<close> on the texts of the examples: the empty object, the complete analysis
      above, and otherwise texts that are not JSON\<close>
  "sampleParse text =
     (if text = ''{}'' then Inr (JObj [])
      else if text = sampleJson then Inr sampleAnalysis
      else Inl (SyntaxError ''Unexpected token in JSON at position 0''))"

definition sampleExec :: "string \<Rightarrow> jserror + string" where
  "sampleExec cmd =
     (if cmd = ''git remote show origin''
      then Inr (''* remote origin'' @ [newline] @ ''  HEAD branch: develop'' @ [newline])
      else if cmd = ''git branch -a''
      then Inr (''* develop'' @ [newline] @ ''  remotes/origin/develop'' @ [newline])
      else Inr [])"

definition sampleProject :: project where
  "sampleProject =
     \<lparr>project_id = 42, project_name = ''mail'', project_path = ''mail'',
      path_with_namespace = ''acme/mail'', default_branch = Some ''develop''\<rparr>"

definition sampleEnv :: env where
  "sampleEnv =
     \<lparr>processEnv = map_of [(''GITLAB_TOKEN'', ''glpat-0000''), (''REPO_NAME'', ''acme/mail'')],
      execSync = sampleExec,
      rmSyncError = (\<lambda>p. None),
      mkdirSyncError = (\<lambda>p. None),
      writeFileSyncError = (\<lambda>p. None),
      projectsShow = (\<lambda>name. Inr sampleProject),
      projectsAll = (\<lambda>search. Inr [sampleProject]),
      mergeRequestsCreate = (\<lambda>pid source target t d. Inr ''https://gitlab.com/acme/mail/-/merge_requests/1''),
      generateContent = (\<lambda>ticketKey descr. Inr sampleJson),
      JSON_parse = sampleParse,
      messagesCreate = (\<lambda>templateName descr variablesList. Inr [TextBlock ''<html></html>'']),
      findIssue = (\<lambda>taskId.
        Inr \<lparr>issue_key = ''PROJ-123'', issue_summary = ''Welcome email'', issue_status = ''Open'',
             issue_description = Some ''Add a welcome email''\<rparr>)\<rparr>"

definition sampleConfig :: GitLabConfig where
  "sampleConfig = \<lparr>token = ''glpat-0000'', baseUrl = ''https://gitlab.com'', repoName = ''acme/mail''\<rparr>"

definition sampleInfo :: MergeRequestInfo where
  "sampleInfo =
     \<lparr>title = ''Add welcome email'', description = ''Adds the template'',
      branchName = ''proj-123-add-welcome-email'', commitMessage = ''Add welcome email template''\<rparr>"

definition sampleState :: state where
  "sampleState =
     \<lparr>cwd = [''home'', ''dev'', ''ai_tooling''],
      dirs = [ [''home''], [''home'', ''dev''], [''home'', ''dev'', ''ai_tooling''] ],
      files = [], console = [], network = [], defaultBranch = ''main'', cleanupCalls = 0\<rparr>"

definition cloneFails :: "string \<Rightarrow> jserror + string" where
  \<comment> \<open>a shell in which \<open>git clone\<close> fails, as it does with a token that is not valid\<close>
  "cloneFails cmd =
     (if startsWith cmd ''git clone '' then Inl (Error ''Command failed: git clone'')
      else sampleExec cmd)"

definition pushFails :: "string \<Rightarrow> jserror + string" where
  "pushFails cmd =
     (if startsWith cmd ''git push '' then Inl (Error ''Command failed: git push'')
      else sampleExec cmd)"

definition scratchBusy :: "path \<Rightarrow> jserror option" where
  \<comment> \<open>a file system that refuses to remove the scratch directory\<close>
  "scratchBusy p =
     (if p = [''home'', ''dev'', ''ai_tooling'', ''temp_git'']
      then Some (Error ''EBUSY: resource busy or locked, rm temp_git'') else None)"

definition headless :: "string \<Rightarrow> string \<Rightarrow> jserror + string" where
  \<comment> \<open>a shell whose remote advertises no HEAD branch and whose branch listing is \<open>listing\<close>\<close>
  "headless listing cmd =
     (if cmd = ''git remote show origin''
      then Inr (''* remote origin'' @ [newline] @ ''  Fetch URL: https://gitlab.com/acme/mail.git'' @ [newline])
      else if cmd = ''git branch -a'' then Inr listing
      else Inr [])"

definition maintenanceListing :: string where
  \<comment> \<open>the output of \<open>git branch -a\<close> in a clone whose remote has the branches
      \<open>maintenance\<close> and \<open>master\<close>\<close>
  "maintenanceListing =
     ''  remotes/origin/maintenance'' @ [newline] @ ''  remotes/origin/master'' @ [newline]"

definition unknownHead :: "string \<Rightarrow> jserror + string" where
  \<comment> \<open>a shell in which git cannot determine the HEAD branch of the remote and says so, and
      whose remote has the branch \<open>master\<close>\<close>
  "unknownHead cmd =
     (if cmd = ''git remote show origin''
      then Inr (''* remote origin'' @ [newline] @ ''  HEAD branch: (unknown)'' @ [newline])
      else if cmd = ''git branch -a'' then Inr (''  remotes/origin/master'' @ [newline])
      else Inr [])"

section \<open>Notions used in the proofs\<close>

definition preserves :: "(state \<Rightarrow> 'f) \<Rightarrow> 'a io \<Rightarrow> bool" where
  \<comment> \<open>the action leaves the component \<open>f\<close> of the state as it was, whatever its outcome\<close>
  "preserves f m = (\<forall>s. f (snd (m s)) = f s)"

named_theorems preserving

section \<open>Facts about the string functions\<close>

lemma removeFence_Nil [simp]: "removeFence pat [] = []"
  by (simp add: removeFence.simps)









































section \<open>Cleaning a wrapped completion\<close>




section \<open>The branch name\<close>

lemma sameIgnoringCase_iff: "sameIgnoringCase a b \<longleftrightarrow> toLowerCase a = toLowerCase b"
  unfolding sameIgnoringCase_def toLowerCase_def
  by (induction a b rule: list_induct2') auto

lemma startsWith_toLowerCase:
  "startsWith (toLowerCase branch) (toLowerCase ticketId) \<longleftrightarrow> startsWithIgnoringCase branch ticketId"
proof
  assume "startsWith (toLowerCase branch) (toLowerCase ticketId)"
  then obtain r where r: "map toLowerChar branch = map toLowerChar ticketId @ r"
    by (auto simp: startsWith_def toLowerCase_def prefix_def)
  then have "length branch = length ticketId + length r"
    by (metis length_append length_map)
  moreover from r have "take (length ticketId) (map toLowerChar branch) = map toLowerChar ticketId"
    by simp
  ultimately show "startsWithIgnoringCase branch ticketId"
    by (simp add: startsWithIgnoringCase_def sameIgnoringCase_iff toLowerCase_def take_map)
next
  assume "startsWithIgnoringCase branch ticketId"
  then have "take (length ticketId) (toLowerCase branch) = toLowerCase ticketId"
    by (simp add: startsWithIgnoringCase_def sameIgnoringCase_iff toLowerCase_def take_map)
  then show "startsWith (toLowerCase branch) (toLowerCase ticketId)"
    unfolding startsWith_def by (metis take_is_prefix)
qed

section \<open>Extraction of the analysis\<close>

lemmas io_defs = ret_def throw_def andThen_def tryCatch_def lift_def netCall_def
  consoleLog_def consoleError_def

lemma someFieldFalsy_absent:
  assumes "f \<in> set fs" "fieldAbsent candidate f"
  shows "someFieldFalsy candidate fs \<noteq> Inr False"
  using assms
  by (induction fs) (auto simp: fieldAbsent_def split: sum.splits)

lemma someFieldFalsy_present:
  assumes "someFieldFalsy candidate fs = Inr False" "f \<in> set fs"
  shows "\<not> fieldAbsent candidate f"
  using assms
  by (induction fs) (auto simp: fieldAbsent_def split: sum.splits if_splits)

lemma parseAnalysis_absent:
  assumes "JSON_parse E cleanedText = Inr candidate" "f \<in> set requiredFields"
    "fieldAbsent candidate f"
  shows "\<exists>e. parseAnalysis E cleanedText ticketKey = Inl e"
proof -
  from someFieldFalsy_absent [OF assms(2,3)]
  consider e where "someFieldFalsy candidate requiredFields = Inl e"
    | "someFieldFalsy candidate requiredFields = Inr True"
    by (cases "someFieldFalsy candidate requiredFields") auto
  then show ?thesis
    by cases (simp_all add: parseAnalysis_def assms(1))
qed

text \<open>
  Whatever makes the inner \<open>try\<close> block fail, the inner \<open>catch\<close> prints it together with
  the raw response and raises one and the same error in its place.
\<close>

lemma analyze_inner_failure:
  assumes "generateContent E ticketKey descr = Inr text"
    "parseAnalysis E (cleanJsonResponse text) ticketKey = Inl e"
  shows "analyzeTicketDescription E descr ticketKey s =
    (Inl (Error ''Failed to parse template analysis response as JSON''),
     s\<lparr>network := network s @ [''generateContent''],
       console := console s @
         [ConsoleLog [Text ''Cleaned response:'', Text (cleanJsonResponse text)],
          ConsoleError [Text ''JSON Parse Error:'', Thrown e],
          ConsoleError [Text ''Raw response:'', Text text],
          ConsoleError [Text ''Error analyzing template:'',
                        Thrown (Error ''Failed to parse template analysis response as JSON'')] ]\<rparr>)"
  using assms by (simp add: analyzeTicketDescription_def io_defs)

lemma analyze_success:
  assumes "generateContent E ticketKey descr = Inr text"
    "parseAnalysis E (cleanJsonResponse text) ticketKey = Inr a"
  shows "analyzeTicketDescription E descr ticketKey s =
    (Inr a,
     s\<lparr>network := network s @ [''generateContent''],
       console := console s @
         [ConsoleLog [Text ''Cleaned response:'', Text (cleanJsonResponse text)] ]\<rparr>)"
  using assms by (simp add: analyzeTicketDescription_def io_defs)

lemma analyze_backend_failure:
  assumes "generateContent E ticketKey descr = Inl e"
  shows "analyzeTicketDescription E descr ticketKey s =
    (Inl e,
     s\<lparr>network := network s @ [''generateContent''],
       console := console s @ [ConsoleError [Text ''Error analyzing template:'', Thrown e] ]\<rparr>)"
  using assms by (simp add: analyzeTicketDescription_def io_defs)

text \<open>
  For every parsed candidate in which one of the seven required fields is missing or falsy,
  extraction fails with an error and returns no analysis.
\<close>

lemma incomplete_candidate_is_rejected:
  assumes "generateContent E ticketKey descr = Inr reply"
    and "JSON_parse E (cleanJsonResponse reply) = Inr candidate"
    and "f \<in> set requiredFields"
    and "fieldAbsent candidate f"
  shows "\<exists>e. fst (analyzeTicketDescription E descr ticketKey s) = Inl e"
proof -
  obtain e where "parseAnalysis E (cleanJsonResponse reply) ticketKey = Inl e"
    using parseAnalysis_absent [OF assms(2,3,4)] by blast
  with assms(1) show ?thesis
    by (simp add: analyze_inner_failure)
qed

text \<open>
  Claim C4 at the completion \<open>{}\<close>, a candidate in which every required field is missing:
  extraction fails and returns no analysis, but the error that the caller receives is the
  one of the inner \<open>catch\<close>, which speaks of a parse failure, not the validation error
  raised by the check of the fields.
\<close>

theorem missing_fields_surface_as_parse_failure:
  "JSON_parse (sampleEnv\<lparr>generateContent := (\<lambda>k d. Inr ''{}'')\<rparr>) (cleanJsonResponse ''{}'') = Inr (JObj [])
   \<and> fieldAbsent (JObj []) ''templateName''
   \<and> parseAnalysis (sampleEnv\<lparr>generateContent := (\<lambda>k d. Inr ''{}'')\<rparr>) (cleanJsonResponse ''{}'') ''PROJ-123''
       = Inl (Error ''Invalid template analysis response: missing required fields'')
   \<and> fst (analyzeTicketDescription (sampleEnv\<lparr>generateContent := (\<lambda>k d. Inr ''{}'')\<rparr>)
            ''Add a welcome email'' ''PROJ-123'' sampleState)
       = Inl (Error ''Failed to parse template analysis response as JSON'')"
  by code_simp

text \<open>An analysis that is returned has all seven fields, each of them truthy.\<close>

lemma map_of_setField [simp]:
  "map_of (setField name v kvs) f = (if f = name then Some v else map_of kvs f)"
  by (induction kvs) auto

lemma parseAnalysis_complete:
  assumes "parseAnalysis E cleanedText ticketKey = Inr a" "f \<in> set requiredFields"
  shows "\<not> fieldAbsent a f"
proof -
  from assms(1) obtain candidate where c: "JSON_parse E cleanedText = Inr candidate"
    by (cases "JSON_parse E cleanedText") (auto simp: parseAnalysis_def)
  with assms(1) have ok: "someFieldFalsy candidate requiredFields = Inr False"
    by (auto simp: parseAnalysis_def split: sum.splits bool.splits)
  then have present: "\<not> fieldAbsent candidate g" if "g \<in> set requiredFields" for g
    using that by (rule someFieldFalsy_present)
  from c ok assms(1) consider "a = candidate"
    | branch where "getProp candidate ''branchName'' = Inr (JStr branch)"
        "a = setProp candidate ''branchName'' (JStr (toLowerCase ticketKey @ ''-'' @ toLowerCase branch))"
    by (auto simp: parseAnalysis_def split: sum.splits jsval.splits if_splits)
  then show ?thesis
  proof cases
    case 1
    with present [OF assms(2)] show ?thesis by simp
  next
    case 2
    then obtain kvs where "candidate = JObj kvs"
      by (cases candidate) auto
    with 2 present [OF assms(2)] show ?thesis
      by (simp add: fieldAbsent_def)
  qed
qed

lemma analyze_returns_complete:
  assumes "fst (analyzeTicketDescription E descr ticketKey s) = Inr a" "f \<in> set requiredFields"
  shows "\<not> fieldAbsent a f"
proof -
  from assms(1) obtain reply where t: "generateContent E ticketKey descr = Inr reply"
    by (cases "generateContent E ticketKey descr") (auto simp: analyze_backend_failure)
  with assms(1) have "parseAnalysis E (cleanJsonResponse reply) ticketKey = Inr a"
    by (cases "parseAnalysis E (cleanJsonResponse reply) ticketKey")
       (auto simp: analyze_inner_failure analyze_success)
  then show ?thesis
    using assms(2) by (rule parseAnalysis_complete)
qed

text \<open>The check of the fields passes on a candidate that has all seven of them.\<close>

lemma someFieldFalsy_all_present:
  assumes "\<forall>f\<in>set fs. \<not> fieldAbsent candidate f"
  shows "someFieldFalsy candidate fs = Inr False"
  using assms
  by (induction fs) (auto simp: fieldAbsent_def split: sum.splits)

lemma parseAnalysis_branch:
  assumes "JSON_parse E cleanedText = Inr candidate"
    and "\<forall>f\<in>set requiredFields. \<not> fieldAbsent candidate f"
    and "getProp candidate ''branchName'' = Inr (JStr branch)"
  shows "parseAnalysis E cleanedText ticketKey =
    Inr (if startsWithIgnoringCase branch ticketKey then candidate
         else setProp candidate ''branchName'' (JStr (toLowerCase ticketKey @ ''-'' @ toLowerCase branch)))"
  using assms(1,3) someFieldFalsy_all_present [OF assms(2)]
  by (simp add: parseAnalysis_def startsWith_toLowerCase)

lemma getProp_setProp:
  assumes "getProp candidate g = Inr (JStr b)"
  shows "getProp (setProp candidate f v) f = Inr v"
    and "f' \<noteq> f \<Longrightarrow> getProp (setProp candidate f v) f' = getProp candidate f'"
  using assms by (cases candidate; simp)+

text \<open>
  Claim C3.  The pair is the ticket id that \<open>analyzeTicketDescription\<close> is called with and
  the branch name of the candidate that it parses from the completion, a candidate that has
  all seven required fields.  If the branch name does not start with the ticket id, compared
  without regard to case, the analysis that is returned is the candidate with its branch
  name replaced by the lower-cased ticket id, a hyphen and the lower-cased branch name; if
  it does start with it, in any casing, the candidate is returned as it is.
\<close>

theorem branch_name_normalisation:
  assumes "generateContent E ticketId descr = Inr reply"
    and "JSON_parse E (cleanJsonResponse reply) = Inr candidate"
    and "\<forall>f\<in>set requiredFields. \<not> fieldAbsent candidate f"
    and "getProp candidate ''branchName'' = Inr (JStr branch)"
  shows "(\<not> startsWithIgnoringCase branch ticketId \<longrightarrow>
            (\<exists>a. fst (analyzeTicketDescription E descr ticketId s) = Inr a
                 \<and> parseAnalysis E (cleanJsonResponse reply) ticketId = Inr a
                 \<and> getProp a ''branchName''
                     = Inr (JStr (toLowerCase ticketId @ ''-'' @ toLowerCase branch))
                 \<and> (\<forall>f. f \<noteq> ''branchName'' \<longrightarrow> getProp a f = getProp candidate f)))
       \<and> (startsWithIgnoringCase branch ticketId \<longrightarrow>
            fst (analyzeTicketDescription E descr ticketId s) = Inr candidate
            \<and> parseAnalysis E (cleanJsonResponse reply) ticketId = Inr candidate)"
proof (intro conjI impI)
  let ?a = "setProp candidate ''branchName''
              (JStr (toLowerCase ticketId @ ''-'' @ toLowerCase branch))"
  assume "\<not> startsWithIgnoringCase branch ticketId"
  then have p: "parseAnalysis E (cleanJsonResponse reply) ticketId = Inr ?a"
    using parseAnalysis_branch [OF assms(2,3,4)] by simp
  then have "fst (analyzeTicketDescription E descr ticketId s) = Inr ?a"
    using assms(1) by (simp add: analyze_success)
  moreover have "getProp ?a ''branchName''
                   = Inr (JStr (toLowerCase ticketId @ ''-'' @ toLowerCase branch))"
    using assms(4) by (rule getProp_setProp(1))
  moreover have "\<forall>f. f \<noteq> ''branchName'' \<longrightarrow> getProp ?a f = getProp candidate f"
    using getProp_setProp(2) [OF assms(4)] by blast
  ultimately show "\<exists>a. fst (analyzeTicketDescription E descr ticketId s) = Inr a
                 \<and> parseAnalysis E (cleanJsonResponse reply) ticketId = Inr a
                 \<and> getProp a ''branchName''
                     = Inr (JStr (toLowerCase ticketId @ ''-'' @ toLowerCase branch))
                 \<and> (\<forall>f. f \<noteq> ''branchName'' \<longrightarrow> getProp a f = getProp candidate f)"
    using p by blast
next
  assume "startsWithIgnoringCase branch ticketId"
  then show p: "parseAnalysis E (cleanJsonResponse reply) ticketId = Inr candidate"
    using parseAnalysis_branch [OF assms(2,3,4)] by simp
  then show "fst (analyzeTicketDescription E descr ticketId s) = Inr candidate"
    using assms(1) by (simp add: analyze_success)
qed

theorem branch_name_normalisation_witness:
  "generateContent sampleEnv ''PROJ-123'' ''Add a welcome email'' = Inr sampleJson
   \<and> JSON_parse sampleEnv (cleanJsonResponse sampleJson) = Inr sampleAnalysis
   \<and> list_all (\<lambda>f. \<not> fieldAbsent sampleAnalysis f) requiredFields
   \<and> getProp sampleAnalysis ''branchName'' = Inr (JStr ''Add-Welcome-Email'')
   \<and> \<not> startsWithIgnoringCase ''Add-Welcome-Email'' ''PROJ-123''
   \<and> (\<exists>a. fst (analyzeTicketDescription sampleEnv ''Add a welcome email'' ''PROJ-123'' sampleState) = Inr a
          \<and> getProp a ''branchName'' = Inr (JStr ''proj-123-add-welcome-email''))
   \<and> startsWithIgnoringCase ''Add-Welcome-Email'' ''ADD''
   \<and> fst (analyzeTicketDescription sampleEnv ''Add a welcome email'' ''ADD'' sampleState)
       = Inr sampleAnalysis"
proof -
  have g: "generateContent sampleEnv k ''Add a welcome email'' = Inr sampleJson" for k
    by (simp add: sampleEnv_def)
  have j: "JSON_parse sampleEnv (cleanJsonResponse sampleJson) = Inr sampleAnalysis"
    by code_simp
  have r: "\<forall>f\<in>set requiredFields. \<not> fieldAbsent sampleAnalysis f"
    by code_simp
  have b: "getProp sampleAnalysis ''branchName'' = Inr (JStr ''Add-Welcome-Email'')"
    by code_simp
  have n: "\<not> startsWithIgnoringCase ''Add-Welcome-Email'' ''PROJ-123''"
    and y: "startsWithIgnoringCase ''Add-Welcome-Email'' ''ADD''"
    by code_simp+
  have l: "toLowerCase ''PROJ-123'' @ ''-'' @ toLowerCase ''Add-Welcome-Email''
             = ''proj-123-add-welcome-email''"
    by code_simp
  from branch_name_normalisation [OF g j r b, of "''PROJ-123''" sampleState] n l
  have 1: "\<exists>a. fst (analyzeTicketDescription sampleEnv ''Add a welcome email'' ''PROJ-123'' sampleState) = Inr a
          \<and> getProp a ''branchName'' = Inr (JStr ''proj-123-add-welcome-email'')"
    by auto
  from branch_name_normalisation [OF g j r b, of "''ADD''" sampleState] y
  have 2: "fst (analyzeTicketDescription sampleEnv ''Add a welcome email'' ''ADD'' sampleState)
       = Inr sampleAnalysis"
    by simp
  from r have r': "list_all (\<lambda>f. \<not> fieldAbsent sampleAnalysis f) requiredFields"
    by (simp add: list_all_iff)
  from g [of "''PROJ-123''"] j r' b n 1 y 2 show ?thesis by blast
qed

text \<open>
  Claim C5 at two inputs: the completion \<open>{}\<close>, which is JSON without any required field,
  and the completion \<open>not json\<close>, which is not JSON.  The caller receives the same error
  for both, so it cannot tell a validation failure from a parse failure; the validation
  error itself is only printed.
\<close>

theorem validation_and_parse_failure_coincide:
  "fst (analyzeTicketDescription (sampleEnv\<lparr>generateContent := (\<lambda>k d. Inr ''{}'')\<rparr>)
          ''Add a welcome email'' ''PROJ-123'' sampleState)
     = Inl (Error ''Failed to parse template analysis response as JSON'')
   \<and> fst (analyzeTicketDescription (sampleEnv\<lparr>generateContent := (\<lambda>k d. Inr ''not json'')\<rparr>)
          ''Add a welcome email'' ''PROJ-123'' sampleState)
     = Inl (Error ''Failed to parse template analysis response as JSON'')
   \<and> ConsoleError [Text ''JSON Parse Error:'',
                    Thrown (Error ''Invalid template analysis response: missing required fields'')]
       \<in> set (console (snd (analyzeTicketDescription
                               (sampleEnv\<lparr>generateContent := (\<lambda>k d. Inr ''{}'')\<rparr>)
                               ''Add a welcome email'' ''PROJ-123'' sampleState)))"
  by code_simp

section \<open>Detection of the default branch\<close>

lemma detect_head:
  assumes "execSync E ''git remote show origin'' = Inr out" "headBranch out = Some b"
  shows "detectDefaultBranch E s =
    (Inr (), s\<lparr>network := network s @ [''git remote show origin''],
               defaultBranch := trim b,
               console := console s @ [ConsoleLog [Text (''Default branch detected: '' @ trim b)] ]\<rparr>)"
  using assms by (simp add: detectDefaultBranch_def io_defs setDefaultBranch_def)

lemma detect_listing:
  assumes "execSync E ''git remote show origin'' = Inr out" "headBranch out = None"
    "execSync E ''git branch -a'' = Inr listing"
  shows "detectDefaultBranch E s =
    (Inr (),
     if includesStr listing ''remotes/origin/main'' then
       s\<lparr>network := network s @ [''git remote show origin''], defaultBranch := ''main'',
         console := console s @ [ConsoleLog [Text ''Default branch set to: main''] ]\<rparr>
     else if includesStr listing ''remotes/origin/master'' then
       s\<lparr>network := network s @ [''git remote show origin''], defaultBranch := ''master'',
         console := console s @ [ConsoleLog [Text ''Default branch set to: master''] ]\<rparr>
     else
       s\<lparr>network := network s @ [''git remote show origin''],
         console := console s @ [ConsoleLog [Text fallbackWarning] ]\<rparr>)"
  using assms by (simp add: detectDefaultBranch_def io_defs setDefaultBranch_def)

lemma detect_command_fails:
  assumes "execSync E ''git remote show origin'' = Inl e
           \<or> (\<exists>out. execSync E ''git remote show origin'' = Inr out \<and> headBranch out = None
                    \<and> execSync E ''git branch -a'' = Inl e)"
  shows "detectDefaultBranch E s =
    (Inr (), s\<lparr>network := network s @ [''git remote show origin''],
               console := console s @ [ConsoleError [Text ''Error detecting default branch:'', Thrown e],
                                       ConsoleLog [Text ''Using default branch: main''] ]\<rparr>)"
  using assms by (auto simp add: detectDefaultBranch_def io_defs setDefaultBranch_def)

text \<open>
  Claim C6 at two runs.  In the first the remote advertises no HEAD branch and has the
  branches \<open>maintenance\<close> and \<open>master\<close>: no remote branch is named \<open>main\<close> and one is
  named \<open>master\<close>, yet \<open>main\<close> is selected, because the name \<open>remotes/origin/maintenance\<close>
  contains \<open>remotes/origin/main\<close>.  In the second git cannot determine the HEAD branch and
  prints \<open>HEAD branch: (unknown)\<close>: the remote has the branch \<open>master\<close>, yet the branch
  that is selected is called \<open>(unknown)\<close>.
\<close>

theorem branch_maintenance_is_taken_for_main:
  "headBranch (''* remote origin'' @ [newline] @ ''  Fetch URL: https://gitlab.com/acme/mail.git'' @ [newline]) = None
   \<and> \<not> remoteBranchExists maintenanceListing ''main''
   \<and> remoteBranchExists maintenanceListing ''master''
   \<and> detectDefaultBranch (sampleEnv\<lparr>execSync := headless maintenanceListing\<rparr>) sampleState
       = (Inr (), sampleState\<lparr>network := [''git remote show origin''], defaultBranch := ''main'',
                              console := [ConsoleLog [Text ''Default branch set to: main''] ]\<rparr>)
   \<and> \<not> remoteBranchExists (''  remotes/origin/master'' @ [newline]) ''main''
   \<and> remoteBranchExists (''  remotes/origin/master'' @ [newline]) ''master''
   \<and> detectDefaultBranch (sampleEnv\<lparr>execSync := unknownHead\<rparr>) sampleState
       = (Inr (), sampleState\<lparr>network := [''git remote show origin''], defaultBranch := ''(unknown)'',
                              console := [ConsoleLog [Text ''Default branch detected: (unknown)''] ]\<rparr>)"
  by code_simp

section \<open>Construction of the manager\<close>

lemma constructor_fails_fast:
  assumes "envFalsy (processEnv E ''GITLAB_TOKEN'') \<or> envFalsy (processEnv E ''REPO_NAME'')"
  shows "\<exists>m. GitLabManager_constructor E s = (Inl (Error m), s)"
  using assms by (auto simp: GitLabManager_constructor_def throw_def)

lemma constructor_succeeds:
  assumes "\<not> envFalsy (processEnv E ''GITLAB_TOKEN'')" "\<not> envFalsy (processEnv E ''REPO_NAME'')"
  shows "\<exists>cfg. GitLabManager_constructor E s = (Inr cfg, s\<lparr>defaultBranch := ''main''\<rparr>)
           \<and> token cfg \<noteq> [] \<and> repoName cfg \<noteq> []"
  using assms by (auto simp: GitLabManager_constructor_def envFalsy_def envValue_def split: option.splits)

text \<open>
  Claim C9 at an environment that sets neither \<open>GITLAB_TOKEN\<close> nor \<open>REPO_NAME\<close>: the
  constructor of \<open>cmd_definitions/jira_test/GitLabManager.ts\<close> returns an instance whose
  token and repository name are empty, where the validating constructor raises.
\<close>

theorem unvalidated_constructor_accepts_empty_environment:
  "envFalsy (processEnv (sampleEnv\<lparr>processEnv := Map.empty\<rparr>) ''GITLAB_TOKEN'')
   \<and> GitLabManager_ts_constructor (sampleEnv\<lparr>processEnv := Map.empty\<rparr>) sampleState
       = (Inr \<lparr>token = [], baseUrl = ''https://gitlab.com'', repoName = []\<rparr>, sampleState)
   \<and> GitLabManager_constructor (sampleEnv\<lparr>processEnv := Map.empty\<rparr>) sampleState
       = (Inl (Error ''GITLAB_TOKEN environment variable is required''), sampleState)"
  by (simp add: GitLabManager_ts_constructor_def GitLabManager_constructor_def envFalsy_def envOr_def
                ret_def throw_def)

section \<open>The command handler catches everything\<close>

text \<open>
  Claim C10: \<open>handleCommand\<close> returns normally for every environment, configuration,
  option record and state; when its \<open>try\<close> block raises, the state it returns is the one
  reached at the raise with one more \<open>console.error\<close> line that carries the message of
  the error; when \<open>--task\<close> is missing or empty it prints one error line and does nothing
  else.
\<close>

theorem handleCommand_returns_normally:
  "fst (handleCommand E cfg opts s) = Inr ()
   \<and> (\<forall>e s'. handleCommand_try E cfg opts s = (Inl e, s') \<longrightarrow>
         snd (handleCommand E cfg opts s)
           = s'\<lparr>console := console s' @ [ConsoleError [Text ''Error:'', Text (message e)] ]\<rparr>)
   \<and> (envFalsy (task opts) \<longrightarrow>
         handleCommand E cfg opts s
           = (Inr (), s\<lparr>console := console s @
                [ConsoleError [Text ''Please provide a task ID using -t or --task option''] ]\<rparr>))"
proof (intro conjI allI impI)
  show "fst (handleCommand E cfg opts s) = Inr ()"
    by (cases "handleCommand_try E cfg opts s")
       (auto simp: handleCommand_def tryCatch_def consoleError_def split: sum.splits)
next
  fix e s'
  assume "handleCommand_try E cfg opts s = (Inl e, s')"
  then show "snd (handleCommand E cfg opts s)
           = s'\<lparr>console := console s' @ [ConsoleError [Text ''Error:'', Text (message e)] ]\<rparr>"
    by (simp add: handleCommand_def tryCatch_def consoleError_def)
next
  assume "envFalsy (task opts)"
  then have "handleCommand_try E cfg opts s
    = (Inr (), s\<lparr>console := console s @
                [ConsoleError [Text ''Please provide a task ID using -t or --task option''] ]\<rparr>)"
    by (auto simp: handleCommand_try_def envFalsy_def consoleError_def split: option.splits)
  then show "handleCommand E cfg opts s
           = (Inr (), s\<lparr>console := console s @
                [ConsoleError [Text ''Please provide a task ID using -t or --task option''] ]\<rparr>)"
    by (simp add: handleCommand_def tryCatch_def)
qed

theorem handleCommand_returns_normally_witness:
  "handleCommand_try (sampleEnv\<lparr>findIssue := (\<lambda>t. Inl (Error ''Issue Does Not Exist''))\<rparr>) sampleConfig
       \<lparr>task = Some ''PROJ-9'', createMr = True\<rparr> sampleState
     = (Inl (Error ''Issue Does Not Exist''), sampleState\<lparr>network := [''findIssue'']\<rparr>)
   \<and> handleCommand (sampleEnv\<lparr>findIssue := (\<lambda>t. Inl (Error ''Issue Does Not Exist''))\<rparr>) sampleConfig
       \<lparr>task = Some ''PROJ-9'', createMr = True\<rparr> sampleState
     = (Inr (), sampleState\<lparr>network := [''findIssue''],
                           console := [ConsoleError [Text ''Error:'', Text ''Issue Does Not Exist''] ]\<rparr>)
   \<and> envFalsy (task \<lparr>task = None, createMr = False\<rparr>)
   \<and> handleCommand sampleEnv sampleConfig \<lparr>task = None, createMr = False\<rparr> sampleState
     = (Inr (), sampleState\<lparr>console :=
          [ConsoleError [Text ''Please provide a task ID using -t or --task option''] ]\<rparr>)"
proof -
  let ?E = "sampleEnv\<lparr>findIssue := (\<lambda>t. Inl (Error ''Issue Does Not Exist''))\<rparr>"
  let ?o = "\<lparr>task = Some ''PROJ-9'', createMr = True\<rparr>"
  have t: "handleCommand_try ?E sampleConfig ?o sampleState
     = (Inl (Error ''Issue Does Not Exist''), sampleState\<lparr>network := [''findIssue'']\<rparr>)"
    by (simp add: handleCommand_try_def io_defs sampleState_def)
  have f: "envFalsy (task \<lparr>task = None, createMr = False\<rparr>)"
    by (simp add: envFalsy_def)
  have c: "console sampleState = []"
    by (simp add: sampleState_def)
  from handleCommand_returns_normally [of ?E sampleConfig ?o sampleState] t
  have 1: "handleCommand ?E sampleConfig ?o sampleState
     = (Inr (), sampleState\<lparr>network := [''findIssue''],
                           console := [ConsoleError [Text ''Error:'', Text ''Issue Does Not Exist''] ]\<rparr>)"
    by (cases "handleCommand ?E sampleConfig ?o sampleState") (simp add: c)
  from handleCommand_returns_normally [of sampleEnv sampleConfig "\<lparr>task = None, createMr = False\<rparr>" sampleState] f
  have 2: "handleCommand sampleEnv sampleConfig \<lparr>task = None, createMr = False\<rparr> sampleState
     = (Inr (), sampleState\<lparr>console :=
          [ConsoleError [Text ''Please provide a task ID using -t or --task option''] ]\<rparr>)"
    by (simp add: c)
  from t 1 f 2 show ?thesis by simp
qed

section \<open>The publisher and its clean-up\<close>

lemma andThen_assoc: "andThen (andThen m f) g = andThen m (\<lambda>x. andThen (f x) g)"
  by (auto simp: andThen_def fun_eq_iff split: prod.splits sum.splits)

lemma createTemplateAndMergeRequest_alt:
  "createTemplateAndMergeRequest E cfg templateName htmlCode mrInfo =
     tryCatch (andThen (publishStages E cfg templateName htmlCode mrInfo) (\<lambda>_. cleanup E))
       (reportAndCleanup E)"
  by (simp add: createTemplateAndMergeRequest_def publishStages_def andThen_assoc)

lemma preservesD: "preserves f m \<Longrightarrow> f (snd (m s)) = f s"
  by (simp add: preserves_def)

lemma preserves_andThen [preserving]:
  assumes "preserves f m" "\<And>x. preserves f (g x)"
  shows "preserves f (andThen m g)"
  unfolding preserves_def
proof
  fix s
  obtain r s' where ms: "m s = (r, s')" by (cases "m s")
  with assms(1) have 1: "f s' = f s" by (metis preservesD snd_conv)
  show "f (snd (andThen m g s)) = f s"
  proof (cases r)
    case (Inl e)
    with ms 1 show ?thesis by (simp add: andThen_def)
  next
    case (Inr x)
    have "f (snd (g x s')) = f s'" using assms(2) by (rule preservesD)
    with Inr ms 1 show ?thesis by (simp add: andThen_def)
  qed
qed

lemma preserves_tryCatch [preserving]:
  assumes "preserves f m" "\<And>e. preserves f (h e)"
  shows "preserves f (tryCatch m h)"
  unfolding preserves_def
proof
  fix s
  obtain r s' where ms: "m s = (r, s')" by (cases "m s")
  with assms(1) have 1: "f s' = f s" by (metis preservesD snd_conv)
  show "f (snd (tryCatch m h s)) = f s"
  proof (cases r)
    case (Inl e)
    have "f (snd (h e s')) = f s'" using assms(2) by (rule preservesD)
    with Inl ms 1 show ?thesis by (simp add: tryCatch_def)
  next
    case (Inr x)
    with ms 1 show ?thesis by (simp add: tryCatch_def)
  qed
qed

lemma preserves_if [preserving]:
  "preserves f a \<Longrightarrow> preserves f b \<Longrightarrow> preserves f (if c then a else b)"
  by simp

lemma preserves_case_option [preserving]:
  "preserves f a \<Longrightarrow> (\<And>x. preserves f (b x)) \<Longrightarrow> preserves f (case v of None \<Rightarrow> a | Some x \<Rightarrow> b x)"
  by (cases v) simp_all

lemma preserves_basic [preserving]:
  "preserves f (ret x)" "preserves f (throw e)" "preserves f (lift r)"
  by (simp_all add: preserves_def io_defs)

lemma preserves_cwd_basic [preserving]:
  "preserves cwd (netCall name r)" "preserves cwd (consoleLog args)" "preserves cwd (consoleError args)"
  "preserves cwd (setDefaultBranch b)" "preserves cwd (rmSync E rel)" "preserves cwd (mkdirSync E p)"
  "preserves cwd (writeFileSync E p c)" "preserves cwd (removeIfExists E rel)" "preserves cwd (gitClone E cfg)"
  by (auto simp: preserves_def io_defs setDefaultBranch_def rmSync_def mkdirSync_def writeFileSync_def
        removeIfExists_def gitClone_def Let_def split: option.splits sum.splits)

lemma preserves_count_basic [preserving]:
  "preserves cleanupCalls (netCall name r)" "preserves cleanupCalls (consoleLog args)"
  "preserves cleanupCalls (consoleError args)" "preserves cleanupCalls (setDefaultBranch b)"
  "preserves cleanupCalls (rmSync E rel)" "preserves cleanupCalls (mkdirSync E p)"
  "preserves cleanupCalls (writeFileSync E p c)" "preserves cleanupCalls (removeIfExists E rel)"
  "preserves cleanupCalls (gitClone E cfg)" "preserves cleanupCalls (chdir rel)"
  by (auto simp: preserves_def io_defs setDefaultBranch_def rmSync_def mkdirSync_def writeFileSync_def
        removeIfExists_def gitClone_def chdir_def Let_def split: option.splits sum.splits)

lemma preserves_dirs_basic [preserving]:
  "preserves dirs (netCall name r)" "preserves dirs (consoleLog args)"
  "preserves dirs (consoleError args)" "preserves dirs (setDefaultBranch b)"
  by (auto simp: preserves_def io_defs setDefaultBranch_def)

lemma preserves_cloneRepository [preserving]:
  "preserves cwd (cloneRepository E cfg)" "preserves cleanupCalls (cloneRepository E cfg)"
  unfolding cloneRepository_def by (intro preserving)+

lemma preserves_detectDefaultBranch [preserving]:
  "preserves cwd (detectDefaultBranch E)" "preserves cleanupCalls (detectDefaultBranch E)"
  "preserves dirs (detectDefaultBranch E)"
  unfolding detectDefaultBranch_def by (intro preserving)+

lemma preserves_createBranch [preserving]:
  "preserves cleanupCalls (createBranch E b)"
  unfolding createBranch_def by (intro preserving)

lemma preserves_saveTemplate [preserving]:
  "preserves cwd (saveTemplate E n h)" "preserves cleanupCalls (saveTemplate E n h)"
  by (auto simp: preserves_def saveTemplate_def io_defs mkdirSync_def writeFileSync_def Let_def
           split: option.splits sum.splits)

lemma preserves_commitAndPush [preserving]:
  "preserves cwd (commitAndPush E b m)" "preserves cleanupCalls (commitAndPush E b m)"
  unfolding commitAndPush_def by (intro preserving)+

lemma preserves_adoptDefaultBranch [preserving]:
  "preserves cwd (adoptDefaultBranch p)" "preserves cleanupCalls (adoptDefaultBranch p)"
  unfolding adoptDefaultBranch_def by (intro preserving)+

lemma preserves_lookupProject [preserving]:
  "preserves cwd (lookupProject E cfg)" "preserves cleanupCalls (lookupProject E cfg)"
  unfolding lookupProject_def Let_def by (intro preserving)+

lemma preserves_mergeRequestsCreate [preserving]:
  "preserves cwd (\<lambda>s. netCall name (r s) s)" "preserves cleanupCalls (\<lambda>s. netCall name (r s) s)"
  by (simp_all add: preserves_def netCall_def)

lemma preserves_createMergeRequest [preserving]:
  "preserves cwd (createMergeRequest E cfg mrInfo)"
  "preserves cleanupCalls (createMergeRequest E cfg mrInfo)"
  unfolding createMergeRequest_def by (intro preserving)+

lemma preserves_publishStages:
  "preserves cleanupCalls (publishStages E cfg templateName htmlCode mrInfo)"
  unfolding publishStages_def by (intro preserving)



lemma cleanup_count: "cleanupCalls (snd (cleanup E s)) = Suc (cleanupCalls s)"
proof -
  have "preserves cleanupCalls
          (tryCatch (andThen (chdir ''..'') (\<lambda>_. removeIfExists E tempDir))
             (\<lambda>error. andThen (consoleError [Text ''Error during cleanup:'', Thrown error])
                         (\<lambda>_. throw error)))"
    by (intro preserving)
  then show ?thesis
    by (simp add: cleanup_def andThen_def preserves_def)
qed

lemma cleanup_raises:
  assumes "cleanup E s = (Inl ce, s2)"
  shows "s2 = s\<lparr>cleanupCalls := Suc (cleanupCalls s), cwd := butlast (cwd s),
               console := console s @ [ConsoleError [Text ''Error during cleanup:'', Thrown ce] ]\<rparr>
         \<and> rmSyncError E (butlast (cwd s) @ [tempDir]) = Some ce
         \<and> butlast (cwd s) @ [tempDir] \<in> set (dirs s)"
  using assms
  by (auto simp: cleanup_def io_defs chdir_def removeIfExists_def rmSync_def existsSync_def
                 resolve_def tempDir_def Let_def split: if_splits option.splits)

lemma cleanup_returns:
  assumes "rmSyncError E (butlast (cwd s) @ [tempDir]) = None"
  shows "\<exists>s2. cleanup E s = (Inr (), s2) \<and> cwd s2 = butlast (cwd s)
           \<and> butlast (cwd s) @ [tempDir] \<notin> set (dirs s2)
           \<and> cleanupCalls s2 = Suc (cleanupCalls s) \<and> console s2 = console s"
  using assms
  by (auto simp: cleanup_def io_defs chdir_def removeIfExists_def rmSync_def existsSync_def
                 resolve_def tempDir_def Let_def)


lemma detect_returns: "fst (detectDefaultBranch E s) = Inr ()"
  by (auto simp: detectDefaultBranch_def io_defs setDefaultBranch_def
           split: sum.splits option.splits prod.splits)

lemma clone_returns:
  assumes "cloneRepository E cfg s = (Inr (), s1)"
  shows "cwd s1 = cwd s \<and> cwd s @ [tempDir] \<in> set (dirs s1)"
  using assms
  by (auto simp: cloneRepository_def io_defs removeIfExists_def rmSync_def gitClone_def
                 resolve_def tempDir_def Let_def
           split: if_splits option.splits sum.splits prod.splits)

lemma createBranch_enters:
  assumes "cwd s @ [tempDir] \<in> set (dirs s)"
  shows "cwd (snd (createBranch E b s)) = cwd s @ [tempDir]"
  using assms
  by (auto simp: createBranch_def io_defs chdir_def existsSync_def resolve_def tempDir_def
           split: sum.splits)

lemma stages_after_clone:
  assumes "cloneRepository E cfg s = (Inr (), s1)"
  shows "cwd (snd (publishStages E cfg templateName htmlCode mrInfo s)) = cwd s @ [tempDir]"
proof -
  let ?rest = "andThen (saveTemplate E templateName htmlCode) (\<lambda>_.
               andThen (commitAndPush E (branchName mrInfo) (commitMessage mrInfo)) (\<lambda>_.
               createMergeRequest E cfg mrInfo))"
  have rest: "preserves cwd ?rest"
    by (intro preserving)
  from clone_returns [OF assms] have c1: "cwd s1 = cwd s" and d1: "cwd s @ [tempDir] \<in> set (dirs s1)"
    by simp_all
  obtain s2 where s2: "detectDefaultBranch E s1 = (Inr (), s2)"
    using detect_returns [of E s1] by (cases "detectDefaultBranch E s1") auto
  have c2: "cwd s2 = cwd s" and d2: "dirs s2 = dirs s1"
    using preservesD [OF preserves_detectDefaultBranch(1), of E s1]
          preservesD [OF preserves_detectDefaultBranch(3), of E s1] s2 c1 by simp_all
  obtain r3 s3 where s3: "createBranch E (branchName mrInfo) s2 = (r3, s3)"
    by (cases "createBranch E (branchName mrInfo) s2")
  have c3: "cwd s3 = cwd s @ [tempDir]"
    using createBranch_enters [of s2 E "branchName mrInfo"] c2 d1 d2 s3 by simp
  have "publishStages E cfg templateName htmlCode mrInfo s
          = andThen (createBranch E (branchName mrInfo)) (\<lambda>_. ?rest) s2"
    using assms s2 by (simp add: publishStages_def andThen_def)
  also have "snd (\<dots>) = (case r3 of Inl e \<Rightarrow> s3 | Inr u \<Rightarrow> snd (?rest s3))"
    using s3 by (simp add: andThen_def split: sum.splits)
  finally have "cwd (snd (publishStages E cfg templateName htmlCode mrInfo s))
                  = cwd (case r3 of Inl e \<Rightarrow> s3 | Inr u \<Rightarrow> snd (?rest s3))"
    by simp
  also have "\<dots> = cwd s3"
    using preservesD [OF rest, of s3] by (cases r3) simp_all
  finally show ?thesis using c3 by simp
qed


lemma reportAndCleanup_eq:
  "reportAndCleanup E e s1 =
     (case cleanup E (s1\<lparr>console := console s1 @ [ConsoleError [Text ''Error in GitLab operations:'', Thrown e] ]\<rparr>) of
        (Inl ce, s2) \<Rightarrow> (Inl ce, s2)
      | (Inr u, s2) \<Rightarrow> (Inl e, s2))"
  by (simp add: reportAndCleanup_def io_defs split: prod.splits sum.splits)

lemma publish_stage_failure:
  assumes "publishStages E cfg templateName htmlCode mrInfo s = (Inl e, s1)"
  shows "createTemplateAndMergeRequest E cfg templateName htmlCode mrInfo s = reportAndCleanup E e s1"
  using assms by (simp add: createTemplateAndMergeRequest_alt tryCatch_def andThen_def)

lemma publish_stages_done:
  assumes "publishStages E cfg templateName htmlCode mrInfo s = (Inr (), s1)"
  shows "createTemplateAndMergeRequest E cfg templateName htmlCode mrInfo s =
           (case cleanup E s1 of
              (Inl ce, s2) \<Rightarrow> reportAndCleanup E ce s2
            | (Inr u, s2) \<Rightarrow> (Inr (), s2))"
  using assms
  by (simp add: createTemplateAndMergeRequest_alt tryCatch_def andThen_def split: prod.splits sum.splits)

lemma reportAndCleanup_count:
  "cleanupCalls (snd (reportAndCleanup E e s1)) = Suc (cleanupCalls s1)"
proof -
  let ?s = "s1\<lparr>console := console s1 @ [ConsoleError [Text ''Error in GitLab operations:'', Thrown e] ]\<rparr>"
  obtain r s2 where c: "cleanup E ?s = (r, s2)"
    by (cases "cleanup E ?s")
  with cleanup_count [of E ?s] have "cleanupCalls s2 = Suc (cleanupCalls s1)"
    by simp
  with c show ?thesis
    by (cases r) (simp_all add: reportAndCleanup_eq)
qed

text \<open>How often the clean-up runs, in each of the three ways a run can go.\<close>

lemma cleanup_call_count:
  "cleanupCalls (snd (createTemplateAndMergeRequest E cfg templateName htmlCode mrInfo s)) =
     (case publishStages E cfg templateName htmlCode mrInfo s of
        (Inl e, s1) \<Rightarrow> Suc (cleanupCalls s)
      | (Inr u, s1) \<Rightarrow>
          (case fst (cleanup E s1) of
             Inr v \<Rightarrow> Suc (cleanupCalls s)
           | Inl ce \<Rightarrow> Suc (Suc (cleanupCalls s))))"
proof (cases "publishStages E cfg templateName htmlCode mrInfo s")
  case (Pair r s1)
  have k: "cleanupCalls s1 = cleanupCalls s"
    using preservesD [OF preserves_publishStages, of E cfg templateName htmlCode mrInfo s] Pair
    by simp
  show ?thesis
  proof (cases r)
    case (Inl e)
    with Pair k show ?thesis
      by (simp add: publish_stage_failure reportAndCleanup_count)
  next
    case (Inr u)
    obtain r2 s2 where c: "cleanup E s1 = (r2, s2)"
      by (cases "cleanup E s1")
    have k2: "cleanupCalls s2 = Suc (cleanupCalls s)"
      using cleanup_count [of E s1] c k by simp
    from Inr Pair c k2 show ?thesis
      by (cases r2) (simp_all add: publish_stages_done reportAndCleanup_count)
  qed
qed

text \<open>
  Once the clone has succeeded, and as long as the scratch directory can be removed, a run
  ends in the directory it started in, without the scratch directory, after one clean-up.
\<close>

lemma publisher_restores_after_clone:
  assumes clone: "cloneRepository E cfg s = (Inr (), s1)"
    and rm: "rmSyncError E (cwd s @ [tempDir]) = None"
  shows "cwd (snd (createTemplateAndMergeRequest E cfg templateName htmlCode mrInfo s)) = cwd s
       \<and> cwd s @ [tempDir] \<notin> set (dirs (snd (createTemplateAndMergeRequest E cfg templateName htmlCode mrInfo s)))
       \<and> cleanupCalls (snd (createTemplateAndMergeRequest E cfg templateName htmlCode mrInfo s))
           = Suc (cleanupCalls s)"
proof -
  obtain r sN where p: "publishStages E cfg templateName htmlCode mrInfo s = (r, sN)"
    by (cases "publishStages E cfg templateName htmlCode mrInfo s")
  have cN: "cwd sN = cwd s @ [tempDir]"
    using stages_after_clone [OF clone, of templateName htmlCode mrInfo] p by simp
  have kN: "cleanupCalls sN = cleanupCalls s"
    using preservesD [OF preserves_publishStages, of E cfg templateName htmlCode mrInfo s] p
    by simp
  show ?thesis
  proof (cases r)
    case (Inr u)
    from cleanup_returns [of E sN] rm cN obtain sF where
      f: "cleanup E sN = (Inr (), sF)" "cwd sF = cwd s" "cwd s @ [tempDir] \<notin> set (dirs sF)"
         "cleanupCalls sF = Suc (cleanupCalls sN)"
      by auto
    with p Inr kN show ?thesis
      by (simp add: publish_stages_done)
  next
    case (Inl e)
    let ?s = "sN\<lparr>console := console sN @ [ConsoleError [Text ''Error in GitLab operations:'', Thrown e] ]\<rparr>"
    from cleanup_returns [of E ?s] rm cN obtain sF where
      f: "cleanup E ?s = (Inr (), sF)" "cwd sF = cwd s" "cwd s @ [tempDir] \<notin> set (dirs sF)"
         "cleanupCalls sF = Suc (cleanupCalls sN)"
      by auto
    with p Inl kN show ?thesis
      by (simp add: publish_stage_failure reportAndCleanup_eq)
  qed
qed

text \<open>
  Claim C1 at a run in which all six stages succeed and the file system then refuses to
  remove the scratch directory: the clean-up called at the end of the \<open>try\<close> block raises,
  the \<open>catch\<close> block calls it a second time.
\<close>

theorem cleanup_runs_twice_when_removal_fails:
  "cleanupCalls sampleState = 0
   \<and> fst (publishStages (sampleEnv\<lparr>rmSyncError := scratchBusy\<rparr>) sampleConfig
            ''welcome_email'' ''<html></html>'' sampleInfo sampleState) = Inr ()
   \<and> cleanupCalls (snd (createTemplateAndMergeRequest (sampleEnv\<lparr>rmSyncError := scratchBusy\<rparr>)
            sampleConfig ''welcome_email'' ''<html></html>'' sampleInfo sampleState)) = 2"
  by code_simp

text \<open>
  What reaches the caller when a stage fails: the \<open>catch\<close> block reports the stage error
  and runs the clean-up; if the clean-up returns, the stage error is rethrown; if the
  clean-up raises, its error is reported by the clean-up and leaves the \<open>catch\<close> block
  before the \<open>throw\<close> of the stage error is reached.
\<close>

lemma publisher_after_stage_failure:
  assumes "publishStages E cfg templateName htmlCode mrInfo s = (Inl e, s1)"
  shows "createTemplateAndMergeRequest E cfg templateName htmlCode mrInfo s =
           (case cleanup E (s1\<lparr>console := console s1 @
                               [ConsoleError [Text ''Error in GitLab operations:'', Thrown e] ]\<rparr>) of
              (Inl ce, s2) \<Rightarrow> (Inl ce, s2)
            | (Inr u, s2) \<Rightarrow> (Inl e, s2))"
  using assms by (simp only: publish_stage_failure reportAndCleanup_eq)

lemma stage_error_survives_clean_cleanup:
  assumes "publishStages E cfg templateName htmlCode mrInfo s = (Inl e, s1)"
    and "fst (cleanup E (s1\<lparr>console := console s1 @
                [ConsoleError [Text ''Error in GitLab operations:'', Thrown e] ]\<rparr>)) = Inr ()"
  shows "fst (createTemplateAndMergeRequest E cfg templateName htmlCode mrInfo s) = Inl e"
  using assms(2) unfolding publisher_after_stage_failure [OF assms(1)]
  by (auto split: prod.splits sum.splits)

text \<open>
  Claim C7 at a run in which \<open>git push\<close> fails and the scratch directory cannot be removed
  afterwards.  The stage error is \<open>Command failed: git push\<close>; it is reported on the
  console, and so is the error of the clean-up; but the error that the caller receives is
  the one of the clean-up, \<open>EBUSY\<close>, in place of the stage error.
\<close>

theorem cleanup_error_masks_stage_error:
  "fst (publishStages (sampleEnv\<lparr>execSync := pushFails, rmSyncError := scratchBusy\<rparr>) sampleConfig
          ''welcome_email'' ''<html></html>'' sampleInfo sampleState)
     = Inl (Error ''Command failed: git push'')
   \<and> fst (createTemplateAndMergeRequest (sampleEnv\<lparr>execSync := pushFails, rmSyncError := scratchBusy\<rparr>)
          sampleConfig ''welcome_email'' ''<html></html>'' sampleInfo sampleState)
     = Inl (Error ''EBUSY: resource busy or locked, rm temp_git'')
   \<and> console (snd (createTemplateAndMergeRequest
          (sampleEnv\<lparr>execSync := pushFails, rmSyncError := scratchBusy\<rparr>)
          sampleConfig ''welcome_email'' ''<html></html>'' sampleInfo sampleState))
     = console (snd (publishStages (sampleEnv\<lparr>execSync := pushFails, rmSyncError := scratchBusy\<rparr>)
          sampleConfig ''welcome_email'' ''<html></html>'' sampleInfo sampleState))
       @ [ConsoleError [Text ''Error in GitLab operations:'', Thrown (Error ''Command failed: git push'')],
          ConsoleError [Text ''Error during cleanup:'',
                        Thrown (Error ''EBUSY: resource busy or locked, rm temp_git'')] ]"
  by code_simp

text \<open>
  Claim C8 at a run whose clone fails: the clean-up leaves the working directory for its
  parent although no stage had entered the scratch directory, so the run ends one level
  above the directory it started in.
\<close>

theorem clone_failure_ends_in_parent_directory:
  "cwd sampleState = [''home'', ''dev'', ''ai_tooling'']
   \<and> fst (createTemplateAndMergeRequest (sampleEnv\<lparr>execSync := cloneFails\<rparr>) sampleConfig
            ''welcome_email'' ''<html></html>'' sampleInfo sampleState)
     = Inl (Error ''Failed to clone repository: Command failed: git clone. Please check your GITLAB_TOKEN and REPO_NAME.'')
   \<and> cwd (snd (createTemplateAndMergeRequest (sampleEnv\<lparr>execSync := cloneFails\<rparr>) sampleConfig
            ''welcome_email'' ''<html></html>'' sampleInfo sampleState))
     = [''home'', ''dev'']"
  by code_simp

end
